theory Spec2Isabelle
  imports Main "HOL-Library.AList"
begin

section \<open>Values, exceptions and configuration\<close>

text \<open>
  The gateway is Python: dictionaries are association lists (\<open>d.get(k)\<close> is
  \<open>map_of d k\<close>), every \<open>raise\<close> is an \<open>Inl\<close> result, and the module globals, the
  users table and the calls that leave the process are fields of an explicit state.
  Times are \<open>datetime\<close> values counted in microseconds, tokens are strings as in the
  source, and a UUID is its canonical text (so \<open>str(user.id)\<close> is the id itself).
\<close>

type_synonym headers = "(string \<times> string) list"

datatype exc =
    HTTPException nat string headers
  | JWTError string
  | ExpiredSignatureError string
  | JWTClaimsError string
  | HTTPStatusError nat string
  | IntegrityError string
  | OtherError string

text \<open>\<open>except JWTError\<close> catches the class and its subclasses.\<close>

fun isinstance_JWTError :: "exc \<Rightarrow> bool" where
  "isinstance_JWTError (JWTError m) = True"
| "isinstance_JWTError (ExpiredSignatureError m) = True"
| "isinstance_JWTError (JWTClaimsError m) = True"
| "isinstance_JWTError e = False"

fun isinstance_HTTPException :: "exc \<Rightarrow> bool" where
  "isinstance_HTTPException (HTTPException c d h) = True"
| "isinstance_HTTPException e = False"

datatype json =
    JNull
  | JBool bool
  | JNum int
  | JStr string
  | JArr "json list"
  | JObj "(string \<times> json) list"

type_synonym jwk = "(string \<times> string) list"
type_synonym jwks = "(string \<times> jwk list) list"
type_synonym payload = "(string \<times> string) list"

record settings =
  COGNITO_REGION :: string
  COGNITO_USER_POOL_ID :: string
  COGNITO_CLIENT_ID :: string
  COGNITO_CLIENT_SECRET :: string
  COGNITO_DOMAIN :: string
  REDIRECT_URI :: string
  GENERATION_SERVICE_URL :: string
  RAG_SERVICE_URL :: string
  ALGORITHM :: string
  COOKIE_NAME :: string
  COOKIE_SECURE :: bool
  COOKIE_HTTPONLY :: bool
  COOKIE_SAMESITE :: string
  FRONTEND_URL :: string

record user =
  uid :: string
  email :: string
  cognito_sub :: string
  full_name :: "string option"
  created_at :: int

record decode_options =
  verify_signature :: bool
  verify_exp :: bool
  verify_aud :: bool
  verify_iss :: bool

text \<open>
  Everything the code calls but does not define is a field of the environment: the
  clock, the rendering \<open>str(e)\<close> of an exception, the two functions of the JWT library,
  the HTTP clients (a function from the request to the outcome, an exception being
  \<open>Inl\<close>), the UUID generator, and the rows that other requests commit between this
  request's SELECT and its INSERT (\<open>[]\<close> when requests run in sequence).
\<close>

record env =
  settings :: settings
  utcnow :: int
  str :: "exc \<Rightarrow> string"
  get_unverified_header :: "string \<Rightarrow> exc + (string \<times> string) list"
  jwt_decode :: "string \<Rightarrow> jwk \<Rightarrow> string list \<Rightarrow> string \<Rightarrow> string \<Rightarrow> decode_options
                 \<Rightarrow> exc + payload"
  requests_get :: "string \<Rightarrow> exc + jwks"
  requests_post :: "string \<Rightarrow> (string \<times> string) list \<Rightarrow> exc + (string \<times> string) list"
  httpx_post :: "string \<Rightarrow> json \<Rightarrow> exc + json"
  uuid4 :: string
  concurrent_rows :: "user list"

datatype effect =
    JwksGet string
  | TokenPost string "(string \<times> string) list"
  | DbQuery string
  | DbInsert user
  | Forward string json

record state =
  jwks_cache :: "jwks option"
  jwks_cache_time :: "int option"
  users :: "user list"
  effects :: "effect list"

section \<open>app/core/security.py\<close>

definition CACHE_DURATION :: int where
  "CACHE_DURATION = 3600 * 1000000"

text \<open>
  The guard of \<open>get_jwks_keys\<close>:
  \<^verbatim>\<open>_jwks_cache and _jwks_cache_time and (now - _jwks_cache_time) < _CACHE_DURATION\<close>.
  A dictionary is true when it is not empty; a \<open>datetime\<close> is always true.
\<close>

definition cache_valid :: "state \<Rightarrow> int \<Rightarrow> jwks option" where
  "cache_valid s now =
     (case jwks_cache s of
        None \<Rightarrow> None
      | Some c \<Rightarrow>
          if c = [] then None
          else (case jwks_cache_time s of
                  None \<Rightarrow> None
                | Some t \<Rightarrow> if now - t < CACHE_DURATION then Some c else None))"

definition jwks_url :: "settings \<Rightarrow> string" where
  "jwks_url cfg =
     ''https://cognito-idp.'' @ COGNITO_REGION cfg @ ''.amazonaws.com/'' @
     COGNITO_USER_POOL_ID cfg @ ''/.well-known/jwks.json''"

definition get_jwks_keys :: "env \<Rightarrow> state \<Rightarrow> (exc + jwks) \<times> state" where
  "get_jwks_keys env s =
     (let now = utcnow env in
      case cache_valid s now of
        Some c \<Rightarrow> (Inr c, s)
      | None \<Rightarrow>
          (let url = jwks_url (settings env);
               s1 = s\<lparr>effects := effects s @ [JwksGet url]\<rparr>
           in case requests_get env url of
                Inr fetched \<Rightarrow>
                  (Inr fetched, s1\<lparr>jwks_cache := Some fetched, jwks_cache_time := Some now\<rparr>)
              | Inl e \<Rightarrow>
                  (Inl (HTTPException 500 (''Failed to fetch JWKS keys: '' @ str env e) []), s1)))"

text \<open>The loop \<open>for jwk in jwks.get("keys", []): if jwk.get("kid") == kid: ...; break\<close>.\<close>

fun find_key :: "jwk list \<Rightarrow> string \<Rightarrow> jwk option" where
  "find_key [] kid = None"
| "find_key (jwk # rest) kid =
     (if map_of jwk ''kid'' = Some kid then Some jwk else find_key rest kid)"

definition jwks_keys :: "jwks \<Rightarrow> jwk list" where
  "jwks_keys j = (case map_of j ''keys'' of None \<Rightarrow> [] | Some ks \<Rightarrow> ks)"

definition issuer_of :: "settings \<Rightarrow> string" where
  "issuer_of cfg =
     ''https://cognito-idp.'' @ COGNITO_REGION cfg @ ''.amazonaws.com/'' @
     COGNITO_USER_POOL_ID cfg"

definition all_checks :: decode_options where
  "all_checks = \<lparr>verify_signature = True, verify_exp = True, verify_aud = True,
                  verify_iss = True\<rparr>"

text \<open>The body of the \<open>try\<close> block of \<open>verify_token\<close>.\<close>

definition verify_token_try :: "env \<Rightarrow> state \<Rightarrow> string \<Rightarrow> (exc + payload) \<times> state" where
  "verify_token_try env s token =
     (case get_jwks_keys env s of
        (Inl e, s1) \<Rightarrow> (Inl e, s1)
      | (Inr jwks, s1) \<Rightarrow>
          (case get_unverified_header env token of
             Inl e \<Rightarrow> (Inl e, s1)
           | Inr unverified_header \<Rightarrow>
               (case map_of unverified_header ''kid'' of
                  None \<Rightarrow>
                    (Inl (HTTPException 401 ''Token header missing 'kid' field'' []), s1)
                | Some kid \<Rightarrow>
                    if kid = [] then
                      (Inl (HTTPException 401 ''Token header missing 'kid' field'' []), s1)
                    else
                      (case find_key (jwks_keys jwks) kid of
                         None \<Rightarrow>
                           (Inl (HTTPException 401 ''Unable to find matching key for token'' []),
                            s1)
                       | Some key \<Rightarrow>
                           if key = [] then
                             (Inl (HTTPException 401 ''Unable to find matching key for token'' []),
                              s1)
                           else
                             (jwt_decode env token key [ALGORITHM (settings env)]
                                (COGNITO_CLIENT_ID (settings env)) (issuer_of (settings env))
                                all_checks,
                              s1)))))"

text \<open>
  The handlers of \<open>verify_token\<close>: \<open>except JWTError\<close> first, then \<open>except Exception\<close>,
  which also catches the \<open>HTTPException\<close>s raised inside the \<open>try\<close> block.
\<close>

definition verify_token :: "env \<Rightarrow> state \<Rightarrow> string \<Rightarrow> (exc + payload) \<times> state" where
  "verify_token env s token =
     (case verify_token_try env s token of
        (Inr p, s1) \<Rightarrow> (Inr p, s1)
      | (Inl e, s1) \<Rightarrow>
          if isinstance_JWTError e then
            (Inl (HTTPException 401 (''Invalid token: '' @ str env e) []), s1)
          else
            (Inl (HTTPException 401 (''Token verification failed: '' @ str env e) []), s1))"

definition decode_id_token_try :: "env \<Rightarrow> state \<Rightarrow> string \<Rightarrow> (exc + payload) \<times> state" where
  "decode_id_token_try env s id_token =
     (case get_jwks_keys env s of
        (Inl e, s1) \<Rightarrow> (Inl e, s1)
      | (Inr jwks, s1) \<Rightarrow>
          (case get_unverified_header env id_token of
             Inl e \<Rightarrow> (Inl e, s1)
           | Inr unverified_header \<Rightarrow>
               (case map_of unverified_header ''kid'' of
                  None \<Rightarrow>
                    (Inl (HTTPException 401 ''ID token header missing 'kid' field'' []), s1)
                | Some kid \<Rightarrow>
                    if kid = [] then
                      (Inl (HTTPException 401 ''ID token header missing 'kid' field'' []), s1)
                    else
                      (case find_key (jwks_keys jwks) kid of
                         None \<Rightarrow>
                           (Inl (HTTPException 401 ''Unable to find matching key for ID token''
                                   []),
                            s1)
                       | Some key \<Rightarrow>
                           if key = [] then
                             (Inl (HTTPException 401
                                     ''Unable to find matching key for ID token'' []),
                              s1)
                           else
                             (jwt_decode env id_token key [ALGORITHM (settings env)]
                                (COGNITO_CLIENT_ID (settings env)) (issuer_of (settings env))
                                all_checks,
                              s1)))))"

text \<open>\<open>decode_id_token\<close> has the single handler \<open>except JWTError\<close>; anything else propagates.\<close>

definition decode_id_token :: "env \<Rightarrow> state \<Rightarrow> string \<Rightarrow> (exc + payload) \<times> state" where
  "decode_id_token env s id_token =
     (case decode_id_token_try env s id_token of
        (Inr p, s1) \<Rightarrow> (Inr p, s1)
      | (Inl e, s1) \<Rightarrow>
          if isinstance_JWTError e then
            (Inl (HTTPException 401 (''Invalid ID token: '' @ str env e) []), s1)
          else (Inl e, s1))"

section \<open>app/api/deps.py\<close>

record request =
  cookies :: "(string \<times> string) list"
  body :: "json option"

definition bearer :: headers where
  "bearer = [(''WWW-Authenticate'', ''Bearer'')]"

text \<open>
  \<open>get_current_user\<close>. The clause \<open>except HTTPException: raise\<close> passes the failure of
  \<open>verify_token\<close> on as it is; \<open>db.query(User).filter(...).first()\<close> is the first row
  with that subject.
\<close>

definition get_current_user :: "env \<Rightarrow> state \<Rightarrow> request \<Rightarrow> (exc + user) \<times> state" where
  "get_current_user env s req =
     (case map_of (cookies req) (COOKIE_NAME (settings env)) of
        None \<Rightarrow>
          (Inl (HTTPException 401 ''Not authenticated. Missing access token cookie.'' bearer), s)
      | Some token \<Rightarrow>
          if token = [] then
            (Inl (HTTPException 401 ''Not authenticated. Missing access token cookie.'' bearer),
             s)
          else
            (case verify_token env s token of
               (Inl e, s1) \<Rightarrow>
                 if isinstance_HTTPException e then (Inl e, s1)
                 else (Inl (HTTPException 401 (''Could not validate credentials: '' @ str env e)
                              bearer), s1)
             | (Inr payload, s1) \<Rightarrow>
                 (case map_of payload ''sub'' of
                    None \<Rightarrow>
                      (Inl (HTTPException 401 ''Token payload missing 'sub' claim'' bearer), s1)
                  | Some sub \<Rightarrow>
                      if sub = [] then
                        (Inl (HTTPException 401 ''Token payload missing 'sub' claim'' bearer),
                         s1)
                      else
                        (let s2 = s1\<lparr>effects := effects s1 @ [DbQuery sub]\<rparr> in
                         case find (\<lambda>u. cognito_sub u = sub) (users s1) of
                           None \<Rightarrow>
                             (Inl (HTTPException 401 ''User not found in database'' bearer), s2)
                         | Some user \<Rightarrow> (Inr user, s2)))))"

section \<open>app/models/user.py and the users table\<close>

text \<open>
  The table's constraints as \<open>app/models/user.py\<close> and the migration declare them:
  \<open>id\<close> is the primary key, \<open>email\<close> and \<open>cognito_sub\<close> are unique. \<open>db.commit()\<close> of
  a row that breaks one of them raises \<open>IntegrityError\<close> and stores nothing.
\<close>

definition violates_unique :: "user list \<Rightarrow> user \<Rightarrow> bool" where
  "violates_unique tbl u =
     list_ex (\<lambda>r. uid r = uid u \<or> email r = email u \<or> cognito_sub r = cognito_sub u) tbl"

definition db_insert :: "user list \<Rightarrow> user \<Rightarrow> exc + user list" where
  "db_insert tbl u =
     (if violates_unique tbl u then Inl (IntegrityError ''duplicate key value violates unique constraint'')
      else Inr (tbl @ [u]))"

section \<open>app/api/routes/auth.py\<close>

record cookie =
  key :: string
  val :: string
  httponly :: bool
  secure :: bool
  samesite :: string
  max_age :: nat

record response =
  url :: string
  status_code :: nat
  set_cookie :: cookie

text \<open>Steps 1 and 2 of \<open>callback\<close>: the code exchange and the two tokens.\<close>

definition callback_tokens :: "env \<Rightarrow> state \<Rightarrow> string \<Rightarrow> (exc + string \<times> string) \<times> state" where
  "callback_tokens env s code =
     (let cfg = settings env;
          token_url = ''https://'' @ COGNITO_DOMAIN cfg @ ''/oauth2/token'';
          token_data = [(''grant_type'', ''authorization_code''),
                        (''client_id'', COGNITO_CLIENT_ID cfg),
                        (''client_secret'', COGNITO_CLIENT_SECRET cfg),
                        (''code'', code),
                        (''redirect_uri'', REDIRECT_URI cfg)];
          s1 = s\<lparr>effects := effects s @ [TokenPost token_url token_data]\<rparr>
      in case requests_post env token_url token_data of
           Inl e \<Rightarrow>
             (Inl (HTTPException 400 (''Failed to exchange code for tokens: '' @ str env e) []),
              s1)
         | Inr tokens \<Rightarrow>
             (case (map_of tokens ''access_token'', map_of tokens ''id_token'') of
                (Some access_token, Some id_token) \<Rightarrow>
                  if access_token = [] \<or> id_token = [] then
                    (Inl (HTTPException 400 ''Missing tokens in response'' []), s1)
                  else (Inr (access_token, id_token), s1)
              | _ \<Rightarrow> (Inl (HTTPException 400 ''Missing tokens in response'' []), s1)))"

text \<open>
  Step 3, the \<open>try\<close> block: \<open>email.split("@")[0]\<close> is evaluated before the check of
  the two claims, so a missing email raises \<open>AttributeError\<close> there. The block's
  handler \<open>except Exception\<close> turns every failure, also the block's own
  \<open>HTTPException\<close>, into a 400.
\<close>

definition callback_user_info_try ::
  "env \<Rightarrow> state \<Rightarrow> string \<Rightarrow> (exc + string \<times> string \<times> string) \<times> state" where
  "callback_user_info_try env s id_token =
     (case decode_id_token env s id_token of
        (Inl e, s1) \<Rightarrow> (Inl e, s1)
      | (Inr user_info, s1) \<Rightarrow>
          (case map_of user_info ''email'' of
             None \<Rightarrow>
               (Inl (OtherError ''AttributeError: 'NoneType' object has no attribute 'split' ''),
                s1)
           | Some em \<Rightarrow>
               (let name = (case map_of user_info ''name'' of
                              None \<Rightarrow> takeWhile (\<lambda>c. c \<noteq> CHR ''@'') em
                            | Some n \<Rightarrow> n)
                in case map_of user_info ''sub'' of
                     None \<Rightarrow>
                       (Inl (HTTPException 400
                               ''Missing required user information in ID token'' []), s1)
                   | Some sub \<Rightarrow>
                       if sub = [] \<or> em = [] then
                         (Inl (HTTPException 400
                                 ''Missing required user information in ID token'' []), s1)
                       else (Inr (sub, em, name), s1))))"

definition callback_user_info ::
  "env \<Rightarrow> state \<Rightarrow> string \<Rightarrow> (exc + string \<times> string \<times> string) \<times> state" where
  "callback_user_info env s id_token =
     (case callback_user_info_try env s id_token of
        (Inr r, s1) \<Rightarrow> (Inr r, s1)
      | (Inl e, s1) \<Rightarrow>
          (Inl (HTTPException 400 (''Failed to decode ID token: '' @ str env e) []), s1))"

text \<open>
  Step 4, the just-in-time provisioning (lines 107 to 119): look the subject up; when
  there is no row, build the user, \<open>db.add\<close>, \<open>db.commit\<close>, \<open>db.refresh\<close>. Nothing
  catches what \<open>db.commit()\<close> raises. \<open>new_user\<close> is
  \<open>User(cognito_sub=..., email=..., full_name=...)\<close> with the column defaults
  \<open>uuid.uuid4\<close> and \<open>datetime.utcnow\<close>.
\<close>

definition new_user :: "env \<Rightarrow> string \<Rightarrow> string \<Rightarrow> string \<Rightarrow> user" where
  "new_user env sub em name =
     \<lparr>uid = uuid4 env, email = em, cognito_sub = sub, full_name = Some name,
      created_at = utcnow env\<rparr>"

definition jit_provision ::
  "env \<Rightarrow> state \<Rightarrow> string \<Rightarrow> string \<Rightarrow> string \<Rightarrow> (exc + user) \<times> state" where
  "jit_provision env s sub em name =
     (let s1 = s\<lparr>effects := effects s @ [DbQuery sub]\<rparr> in
      case find (\<lambda>u. cognito_sub u = sub) (users s) of
        Some user \<Rightarrow> (Inr user, s1)
      | None \<Rightarrow>
          (let user = new_user env sub em name;
               tbl = users s @ concurrent_rows env;
               s2 = s1\<lparr>users := tbl, effects := effects s1 @ [DbInsert user]\<rparr>
           in case db_insert tbl user of
                Inl e \<Rightarrow> (Inl e, s2)
              | Inr tbl' \<Rightarrow> (Inr user, s2\<lparr>users := tbl'\<rparr>)))"

definition callback :: "env \<Rightarrow> state \<Rightarrow> string \<Rightarrow> (exc + response) \<times> state" where
  "callback env s code =
     (case callback_tokens env s code of
        (Inl e, s1) \<Rightarrow> (Inl e, s1)
      | (Inr (access_token, id_token), s1) \<Rightarrow>
          (case callback_user_info env s1 id_token of
             (Inl e, s2) \<Rightarrow> (Inl e, s2)
           | (Inr (sub, em, name), s2) \<Rightarrow>
               (case jit_provision env s2 sub em name of
                  (Inl e, s3) \<Rightarrow> (Inl e, s3)
                | (Inr user, s3) \<Rightarrow>
                    (let cfg = settings env in
                     (Inr \<lparr>url = FRONTEND_URL cfg @ ''/dashboard'', status_code = 302,
                           set_cookie = \<lparr>key = COOKIE_NAME cfg, val = access_token,
                                          httponly = COOKIE_HTTPONLY cfg,
                                          secure = COOKIE_SECURE cfg,
                                          samesite = COOKIE_SAMESITE cfg,
                                          max_age = 3600\<rparr>\<rparr>,
                      s3)))))"

section \<open>app/api/routes/generation.py and app/api/routes/rag.py\<close>

text \<open>
  The three JSON routes do the same after authentication: \<open>body["user_id"] =
  str(current_user.id)\<close>, then one POST. Assigning to a key of a dictionary replaces the
  value where the key stands or appends the pair; on a JSON value that is not an
  object the assignment raises \<open>TypeError\<close>, outside every \<open>try\<close>.
  \<open>post_downstream\<close> is the \<open>try\<close> block the routes share, with the route's two
  detail prefixes and its URL: \<open>httpx.HTTPStatusError\<close> keeps the downstream status and
  text, any other exception becomes a 503.
\<close>

definition post_downstream ::
  "env \<Rightarrow> state \<Rightarrow> string \<Rightarrow> string \<Rightarrow> string \<Rightarrow> json \<Rightarrow> (exc + json) \<times> state" where
  "post_downstream env s status_detail failure_detail service_url payload =
     (let s1 = s\<lparr>effects := effects s @ [Forward service_url payload]\<rparr> in
      case httpx_post env service_url payload of
        Inr r \<Rightarrow> (Inr r, s1)
      | Inl (HTTPStatusError code text) \<Rightarrow>
          (Inl (HTTPException code (status_detail @ text) []), s1)
      | Inl e \<Rightarrow> (Inl (HTTPException 503 (failure_detail @ str env e) []), s1))"

definition inject_user_id :: "user \<Rightarrow> json \<Rightarrow> exc + json" where
  "inject_user_id current_user b =
     (case b of
        JObj kvs \<Rightarrow> Inr (JObj (AList.update ''user_id'' (JStr (uid current_user)) kvs))
      | _ \<Rightarrow> Inl (OtherError ''TypeError''))"

definition create_plan :: "env \<Rightarrow> state \<Rightarrow> request \<Rightarrow> (exc + json) \<times> state" where
  "create_plan env s req =
     (case get_current_user env s req of
        (Inl e, s1) \<Rightarrow> (Inl e, s1)
      | (Inr current_user, s1) \<Rightarrow>
          (let b = (case body req of None \<Rightarrow> JObj [] | Some j \<Rightarrow> j) in
           case inject_user_id current_user b of
             Inl e \<Rightarrow> (Inl e, s1)
           | Inr payload \<Rightarrow>
               post_downstream env s1 ''Generation service error: ''
                 ''Failed to communicate with generation service: ''
                 (GENERATION_SERVICE_URL (settings env) @ ''/create_plan'') payload))"

definition chat :: "env \<Rightarrow> state \<Rightarrow> request \<Rightarrow> (exc + json) \<times> state" where
  "chat env s req =
     (case get_current_user env s req of
        (Inl e, s1) \<Rightarrow> (Inl e, s1)
      | (Inr current_user, s1) \<Rightarrow>
          (let b = (case body req of None \<Rightarrow> JObj [] | Some j \<Rightarrow> j) in
           case inject_user_id current_user b of
             Inl e \<Rightarrow> (Inl e, s1)
           | Inr payload \<Rightarrow>
               post_downstream env s1 ''Generation service error: ''
                 ''Failed to communicate with generation service: ''
                 (GENERATION_SERVICE_URL (settings env) @ ''/learn/generation'') payload))"

text \<open>
  \<open>query_rag\<close> declares \<open>request_data: Dict[str, Any]\<close>: the framework hands the
  function a dictionary, here the pairs of the request's JSON object.
\<close>

definition query_rag ::
  "env \<Rightarrow> state \<Rightarrow> request \<Rightarrow> (string \<times> json) list \<Rightarrow> (exc + json) \<times> state" where
  "query_rag env s req request_data =
     (case get_current_user env s req of
        (Inl e, s1) \<Rightarrow> (Inl e, s1)
      | (Inr current_user, s1) \<Rightarrow>
          (case inject_user_id current_user (JObj request_data) of
             Inl e \<Rightarrow> (Inl e, s1)
           | Inr payload \<Rightarrow>
               post_downstream env s1 ''RAG service error: ''
                 ''Failed to communicate with RAG service: ''
                 (RAG_SERVICE_URL (settings env) @ ''/query'')
                 payload))"

section \<open>Reading the effects\<close>

fun inserts :: "effect list \<Rightarrow> user list" where
  "inserts [] = []"
| "inserts (DbInsert u # es) = u # inserts es"
| "inserts (e # es) = inserts es"

section \<open>A concrete environment\<close>

text \<open>
  Modelled from the spec: the JWT library and the web framework are third-party
  packages, not part of the repository. For concrete inputs the library is a table
  from token strings to their decoded parts, checked as section 4.2 of the
  specification lists the steps: the header is read without trusting it; the signature
  is checked against the located key and the one configured algorithm, then the
  expiry, the audience and the issuer. A signature verifies under a key when the key's
  modulus \<open>n\<close> is the one the token was signed with; \<open>exp\<close> is on the clock's scale.
  The functions of the repository above take the library as a parameter; only what
  is said of a token's own expiry and signature is stated for this model.
  \<open>lib_str\<close> renders an exception the way Python prints it: the message, and for the
  framework's \<open>HTTPException\<close> the status code, a colon and the detail.
\<close>

record token_parts =
  hdr :: "(string \<times> string) list"
  claims :: payload
  exp :: int
  signed_with :: string

definition lib_get_unverified_header ::
  "(string \<times> token_parts) list \<Rightarrow> string \<Rightarrow> exc + (string \<times> string) list" where
  "lib_get_unverified_header tbl token =
     (case map_of tbl token of
        None \<Rightarrow> Inl (JWTError ''Error decoding token headers.'')
      | Some t \<Rightarrow> Inr (hdr t))"

definition lib_signature_ok :: "token_parts \<Rightarrow> jwk \<Rightarrow> string list \<Rightarrow> bool" where
  "lib_signature_ok t k algorithms =
     (case map_of (hdr t) ''alg'' of
        None \<Rightarrow> False
      | Some a \<Rightarrow> a \<in> set algorithms \<and> map_of k ''n'' = Some (signed_with t))"

definition lib_decode ::
  "(string \<times> token_parts) list \<Rightarrow> int \<Rightarrow> string \<Rightarrow> jwk \<Rightarrow> string list \<Rightarrow> string \<Rightarrow> string
     \<Rightarrow> decode_options \<Rightarrow> exc + payload" where
  "lib_decode tbl now token k algorithms audience issuer opts =
     (case map_of tbl token of
        None \<Rightarrow> Inl (JWTError ''Error decoding token headers.'')
      | Some t \<Rightarrow>
          if verify_signature opts \<and> \<not> lib_signature_ok t k algorithms then
            Inl (JWTError ''Signature verification failed.'')
          else if verify_exp opts \<and> exp t < now then
            Inl (ExpiredSignatureError ''Signature has expired.'')
          else if verify_aud opts \<and> map_of (claims t) ''aud'' \<noteq> Some audience then
            Inl (JWTClaimsError ''Invalid audience'')
          else if verify_iss opts \<and> map_of (claims t) ''iss'' \<noteq> Some issuer then
            Inl (JWTClaimsError ''Invalid issuer'')
          else Inr (claims t))"

fun lib_str :: "exc \<Rightarrow> string" where
  "lib_str (HTTPException c d h) =
     (if c = 400 then ''400'' else if c = 401 then ''401'' else if c = 500 then ''500''
      else ''503'') @ '': '' @ d"
| "lib_str (JWTError m) = m"
| "lib_str (ExpiredSignatureError m) = m"
| "lib_str (JWTClaimsError m) = m"
| "lib_str (HTTPStatusError c t) = t"
| "lib_str (IntegrityError m) = m"
| "lib_str (OtherError m) = m"

definition cfg0 :: settings where
  "cfg0 = \<lparr>COGNITO_REGION = ''eu'', COGNITO_USER_POOL_ID = ''pool'',
           COGNITO_CLIENT_ID = ''client'', COGNITO_CLIENT_SECRET = ''secret'',
           COGNITO_DOMAIN = ''auth.example'', REDIRECT_URI = ''https://gw/callback'',
           GENERATION_SERVICE_URL = ''http://gen'', RAG_SERVICE_URL = ''http://rag'',
           ALGORITHM = ''RS256'', COOKIE_NAME = ''access_token'', COOKIE_SECURE = False,
           COOKIE_HTTPONLY = True, COOKIE_SAMESITE = ''lax'',
           FRONTEND_URL = ''http://localhost:3000''\<rparr>"

definition claims0 :: payload where
  "claims0 = [(''sub'', ''u-1''), (''email'', ''a@x.com''), (''aud'', ''client''),
              (''iss'', ''https://cognito-idp.eu.amazonaws.com/pool'')]"

text \<open>
  Five tokens at time 1000: \<open>good\<close> is valid; the others expired at 10. \<open>stale\<close> is
  signed by the known key \<open>k1\<close>; \<open>other\<close> names the key \<open>k2\<close>, which the key set does
  not hold; \<open>forged\<close> names \<open>k1\<close> but was signed with another key; \<open>nokid\<close> has no
  \<open>kid\<close> in its header.
\<close>

definition tokens0 :: "(string \<times> token_parts) list" where
  "tokens0 =
     [(''good'', \<lparr>hdr = [(''alg'', ''RS256''), (''kid'', ''k1'')], claims = claims0,
                  exp = 2000, signed_with = ''N1''\<rparr>),
      (''stale'', \<lparr>hdr = [(''alg'', ''RS256''), (''kid'', ''k1'')], claims = claims0,
                   exp = 10, signed_with = ''N1''\<rparr>),
      (''other'', \<lparr>hdr = [(''alg'', ''RS256''), (''kid'', ''k2'')], claims = claims0,
                   exp = 10, signed_with = ''N2''\<rparr>),
      (''forged'', \<lparr>hdr = [(''alg'', ''RS256''), (''kid'', ''k1'')], claims = claims0,
                    exp = 10, signed_with = ''N2''\<rparr>),
      (''nokid'', \<lparr>hdr = [(''alg'', ''RS256'')], claims = claims0,
                   exp = 10, signed_with = ''N1''\<rparr>)]"

definition keys0 :: jwks where
  "keys0 = [(''keys'', [[(''kid'', ''k1''), (''kty'', ''RSA''), (''n'', ''N1'')]])]"

definition env0 :: env where
  "env0 = \<lparr>settings = cfg0, utcnow = 1000, str = lib_str,
           get_unverified_header = lib_get_unverified_header tokens0,
           jwt_decode = lib_decode tokens0 1000,
           requests_get = (\<lambda>u. Inr keys0),
           requests_post = (\<lambda>u d. Inr [(''access_token'', ''good''), (''id_token'', ''good'')]),
           httpx_post = (\<lambda>u p. Inr JNull),
           uuid4 = ''id-1'', concurrent_rows = []\<rparr>"

text \<open>The same environment while the identity provider is down.\<close>

definition env_down :: env where
  "env_down = env0\<lparr>requests_get := (\<lambda>u. Inl (OtherError ''timeout''))\<rparr>"

definition user1 :: user where
  "user1 = \<lparr>uid = ''id-1'', email = ''a@x.com'', cognito_sub = ''u-1'',
            full_name = Some ''a'', created_at = 1000\<rparr>"

text \<open>A state with the key set fetched at time \<open>t\<close>, and the users \<open>us\<close>.\<close>

definition state_at :: "int \<Rightarrow> user list \<Rightarrow> state" where
  "state_at t us = \<lparr>jwks_cache = Some keys0, jwks_cache_time = Some t, users = us,
                    effects = []\<rparr>"

text \<open>
  A state whose cache holds the empty JSON object, stored at time 0: what lines 37 and
  38 leave behind when the provider answers \<open>{}\<close>.
\<close>

definition state_empty_object :: state where
  "state_empty_object = \<lparr>jwks_cache = Some [], jwks_cache_time = Some 0, users = [],
                          effects = []\<rparr>"

definition state0 :: state where
  "state0 = \<lparr>jwks_cache = None, jwks_cache_time = None, users = [], effects = []\<rparr>"

text \<open>A request that carries the session cookie with the given token and no body.\<close>

definition req_of :: "string \<Rightarrow> request" where
  "req_of token = \<lparr>cookies = [(''access_token'', token)], body = None\<rparr>"

text \<open>
  While this request runs, another first login of the subject \<open>u-1\<close> commits its row.
\<close>

definition env_race :: env where
  "env_race = env0\<lparr>concurrent_rows := [user1\<lparr>uid := ''id-9''\<rparr>]\<rparr>"

text \<open>A user with another subject and the email \<open>a@x.com\<close>.\<close>

definition user0 :: user where
  "user0 = \<lparr>uid = ''id-0'', email = ''a@x.com'', cognito_sub = ''u-0'',
            full_name = Some ''a'', created_at = 0\<rparr>"

text \<open>An authenticated request whose body names another user.\<close>

definition req_evil :: request where
  "req_evil = \<lparr>cookies = [(''access_token'', ''good'')],
               body = Some (JObj [(''user_id'', JStr ''evil''), (''q'', JNum 1)])\<rparr>"

section \<open>The key-set cache\<close>

lemma cache_valid_fresh:
  "jwks_cache s = Some c \<Longrightarrow> c \<noteq> [] \<Longrightarrow> jwks_cache_time s = Some t \<Longrightarrow>
   now - t < CACHE_DURATION \<Longrightarrow> cache_valid s now = Some c"
  by (simp add: cache_valid_def)

lemma cache_valid_expired:
  "jwks_cache s = None \<or> (jwks_cache_time s = Some t \<and> CACHE_DURATION \<le> now - t) \<Longrightarrow>
   cache_valid s now = None"
  by (auto simp: cache_valid_def split: option.splits)

text \<open>
  Claim C8, as the code has it. When the cached key set is not the empty dictionary
  and was fetched less than one hour before the call, \<open>get_jwks_keys\<close> returns it and
  leaves the whole state as it was: the cache, its timestamp, and the list of effects,
  so no request to the provider is made.
\<close>

theorem get_jwks_keys_fresh:
  assumes "jwks_cache s = Some c" and "c \<noteq> []"
    and "jwks_cache_time s = Some t" and "utcnow env - t < CACHE_DURATION"
  shows "get_jwks_keys env s = (Inr c, s)"
  using cache_valid_fresh [OF assms] by (simp add: get_jwks_keys_def)

theorem get_jwks_keys_fresh_witness:
  "jwks_cache (state_at 0 []) = Some keys0 \<and> keys0 \<noteq> [] \<and>
   jwks_cache_time (state_at 0 []) = Some 0 \<and> utcnow env_down - 0 < CACHE_DURATION \<and>
   get_jwks_keys env_down (state_at 0 []) = (Inr keys0, state_at 0 [])"
proof -
  have a: "jwks_cache (state_at 0 []) = Some keys0" by (simp add: state_at_def)
  have b: "keys0 \<noteq> []" by (simp add: keys0_def)
  have c: "jwks_cache_time (state_at 0 []) = Some 0" by (simp add: state_at_def)
  have d: "utcnow env_down - 0 < CACHE_DURATION"
    by (simp add: env_down_def env0_def CACHE_DURATION_def)
  from get_jwks_keys_fresh [OF a b c d] a b c d show ?thesis by simp
qed

text \<open>
  Claim C8 as stated fails: the cache holds the empty JSON object, stored 1000
  microseconds before the call. Python's truth test of line 25 takes the empty
  dictionary for no cache, so the keys are fetched and the cache and its timestamp are
  rewritten.
\<close>

theorem get_jwks_keys_empty_object_counterexample:
  "jwks_cache state_empty_object = Some [] \<and>
   jwks_cache_time state_empty_object = Some 0 \<and>
   utcnow env0 - 0 < CACHE_DURATION \<and>
   get_jwks_keys env0 state_empty_object =
     (Inr keys0,
      \<lparr>jwks_cache = Some keys0, jwks_cache_time = Some 1000, users = [],
       effects =
         [JwksGet ''https://cognito-idp.eu.amazonaws.com/pool/.well-known/jwks.json'']\<rparr>)"
  by (simp add: get_jwks_keys_def cache_valid_def state_empty_object_def env0_def
      CACHE_DURATION_def jwks_url_def cfg0_def)

text \<open>
  Claim C1, as the code has it. \<open>get_jwks_keys\<close> has no fallback: when no cached set
  is younger than one hour (there is none, or its timestamp is an hour old or more) and
  the fetch raises, the call fails with the 500 \<open>Failed to fetch JWKS keys\<close>, whether
  or not an older set is still in the cache. The cache and its timestamp stay as they
  were; the attempted fetch is the only effect.
\<close>

theorem get_jwks_keys_fetch_fails:
  assumes "jwks_cache s = None \<or>
           (jwks_cache_time s = Some t \<and> CACHE_DURATION \<le> utcnow env - t)"
    and "requests_get env (jwks_url (settings env)) = Inl e"
  shows "get_jwks_keys env s =
           (Inl (HTTPException 500 (''Failed to fetch JWKS keys: '' @ str env e) []),
            s\<lparr>effects := effects s @ [JwksGet (jwks_url (settings env))]\<rparr>)"
  using cache_valid_expired [OF assms(1)] assms(2) by (simp add: get_jwks_keys_def)

theorem get_jwks_keys_fetch_fails_witness:
  "(jwks_cache (state_at (- 3600000000) []) = None \<or>
    (jwks_cache_time (state_at (- 3600000000) []) = Some (- 3600000000) \<and>
     CACHE_DURATION \<le> utcnow env_down - (- 3600000000))) \<and>
   requests_get env_down (jwks_url (settings env_down)) = Inl (OtherError ''timeout'') \<and>
   get_jwks_keys env_down (state_at (- 3600000000) []) =
     (Inl (HTTPException 500
             (''Failed to fetch JWKS keys: '' @ str env_down (OtherError ''timeout'')) []),
      (state_at (- 3600000000) [])
        \<lparr>effects := effects (state_at (- 3600000000) []) @
                     [JwksGet (jwks_url (settings env_down))]\<rparr>)"
proof -
  have a: "jwks_cache (state_at (- 3600000000) []) = None \<or>
    (jwks_cache_time (state_at (- 3600000000) []) = Some (- 3600000000) \<and>
     CACHE_DURATION \<le> utcnow env_down - (- 3600000000))"
    by (simp add: state_at_def env_down_def env0_def CACHE_DURATION_def)
  have b: "requests_get env_down (jwks_url (settings env_down)) = Inl (OtherError ''timeout'')"
    by (simp add: env_down_def)
  from get_jwks_keys_fetch_fails [OF a b] a b show ?thesis by simp
qed

text \<open>
  Claim C1 as stated fails: the cache holds the key set \<open>keys0\<close>, fetched one hour and
  1000 microseconds before the call, the provider is down, and the call does not return
  \<open>keys0\<close> but raises.
\<close>

theorem get_jwks_keys_stale_counterexample:
  "jwks_cache (state_at (- 3600000000) []) = Some keys0 \<and>
   get_jwks_keys env_down (state_at (- 3600000000) []) =
     (Inl (HTTPException 500 ''Failed to fetch JWKS keys: timeout'' []),
      (state_at (- 3600000000) [])
        \<lparr>effects :=
           [JwksGet ''https://cognito-idp.eu.amazonaws.com/pool/.well-known/jwks.json'']\<rparr>)"
  by (simp add: get_jwks_keys_def cache_valid_def state_at_def env_down_def env0_def
      CACHE_DURATION_def jwks_url_def cfg0_def keys0_def)

section \<open>The token verifier\<close>

lemma find_key_nonempty: "find_key ks kid = Some k \<Longrightarrow> k \<noteq> []"
  by (induction ks) (auto split: if_splits)

lemma verify_token_Inr:
  "(verify_token env s token = (Inr p, s')) = (verify_token_try env s token = (Inr p, s'))"
  by (auto simp: verify_token_def split: prod.splits sum.splits)

lemma decode_id_token_Inr:
  "(decode_id_token env s token = (Inr p, s')) = (decode_id_token_try env s token = (Inr p, s'))"
  by (auto simp: decode_id_token_def split: prod.splits sum.splits)

lemma try_blocks_agree:
  "(decode_id_token_try env s token = (Inr p, s')) = (verify_token_try env s token = (Inr p, s'))"
  unfolding decode_id_token_try_def verify_token_try_def
  by (simp split: prod.splits sum.splits option.splits)

text \<open>
  Claim C7. \<open>decode_id_token\<close> accepts a token exactly when \<open>verify_token\<close> does,
  under the same environment (key set, configuration, library) and state, and then
  with the same payload and the same resulting state: both look the key up by the
  header's \<open>kid\<close> and call the library's decode with the same key, algorithm,
  audience, issuer and the four checks enabled.
\<close>

theorem decode_id_token_accepts_as_verify_token:
  "(decode_id_token env s token = (Inr p, s')) = (verify_token env s token = (Inr p, s'))"
  by (simp only: verify_token_Inr decode_id_token_Inr try_blocks_agree)

lemmas concrete_defs = verify_token_def verify_token_try_def decode_id_token_def
  decode_id_token_try_def get_jwks_keys_def cache_valid_def state_at_def env0_def
  CACHE_DURATION_def jwks_url_def cfg0_def keys0_def lib_get_unverified_header_def
  lib_decode_def lib_signature_ok_def tokens0_def jwks_keys_def issuer_of_def all_checks_def
  claims0_def state0_def

text \<open>
  Claim C3, the code at the failing input. The token \<open>other\<close> names the key \<open>k2\<close>;
  the key set holds \<open>k1\<close> only. \<open>verify_token\<close> raises the specific 401 of line 82
  inside its own \<open>try\<close> block, where \<open>except Exception\<close> catches it: what leaves the
  function is the catch-all's \<open>Token verification failed\<close> error around the text of
  the first. \<open>decode_id_token\<close>, which catches \<open>JWTError\<close> only, lets the specific
  error through.
\<close>

theorem verify_token_unknown_kid_wrapped:
  "verify_token env0 (state_at 0 []) ''other'' =
     (Inl (HTTPException 401
             (''Token verification failed: '' @
              str env0 (HTTPException 401 ''Unable to find matching key for token'' [])) []),
      state_at 0 []) \<and>
   decode_id_token env0 (state_at 0 []) ''other'' =
     (Inl (HTTPException 401 ''Unable to find matching key for ID token'' []), state_at 0 [])"
  by (simp add: concrete_defs)

lemma lib_decode_expired_token:
  assumes "map_of tbl token = Some t" and "exp t < now"
  shows "lib_decode tbl now token k algs aud iss all_checks =
           (if lib_signature_ok t k algs
            then Inl (ExpiredSignatureError ''Signature has expired.'')
            else Inl (JWTError ''Signature verification failed.''))"
  using assms by (simp add: lib_decode_def all_checks_def)

lemma verify_token_try_expired:
  assumes "get_unverified_header env = lib_get_unverified_header tbl"
    and "jwt_decode env = lib_decode tbl now"
    and "get_jwks_keys env s = (Inr jwks, s1)"
    and "map_of tbl token = Some t"
    and "exp t < now"
  shows "verify_token_try env s token =
           (Inl (case map_of (hdr t) ''kid'' of
                   None \<Rightarrow> HTTPException 401 ''Token header missing 'kid' field'' []
                 | Some kid \<Rightarrow>
                     if kid = [] then HTTPException 401 ''Token header missing 'kid' field'' []
                     else (case find_key (jwks_keys jwks) kid of
                             None \<Rightarrow> HTTPException 401 ''Unable to find matching key for token'' []
                           | Some k \<Rightarrow>
                               if lib_signature_ok t k [ALGORITHM (settings env)]
                               then ExpiredSignatureError ''Signature has expired.''
                               else JWTError ''Signature verification failed.'')),
            s1)"
proof (cases "map_of (hdr t) ''kid''")
  case None
  with assms show ?thesis
    by (simp add: verify_token_try_def lib_get_unverified_header_def)
next
  case (Some kid)
  show ?thesis
  proof (cases "kid = []")
    case True
    with Some assms show ?thesis
      by (simp add: verify_token_try_def lib_get_unverified_header_def)
  next
    case False
    show ?thesis
    proof (cases "find_key (jwks_keys jwks) kid")
      case None
      with Some False assms show ?thesis
        by (simp add: verify_token_try_def lib_get_unverified_header_def)
    next
      case k: (Some k)
      from k have "k \<noteq> []" by (rule find_key_nonempty)
      with k Some False assms lib_decode_expired_token [OF assms(4,5)] show ?thesis
        by (simp add: verify_token_try_def lib_get_unverified_header_def)
    qed
  qed
qed

text \<open>
  Claim C4, as the code has it, with the library as the specification orders its checks
  (signature, then expiry). The key set is at hand and the token, decodable, has its
  expiry in the past. Then \<open>verify_token\<close> fails with the expiry failure, the 401
  \<open>Invalid token\<close> around \<open>Signature has expired.\<close>, exactly when the header carries
  a non-empty \<open>kid\<close> that the key set holds and the signature verifies under that key
  with the configured algorithm. Otherwise it fails with the earlier failure: the
  missing \<open>kid\<close>, the unknown key, or the invalid signature.
\<close>

theorem verify_token_expired:
  assumes "get_unverified_header env = lib_get_unverified_header tbl"
    and "jwt_decode env = lib_decode tbl now"
    and "get_jwks_keys env s = (Inr jwks, s1)"
    and "map_of tbl token = Some t"
    and "exp t < now"
  shows "verify_token env s token =
           (Inl (HTTPException 401
              (case map_of (hdr t) ''kid'' of
                 None \<Rightarrow>
                   ''Token verification failed: '' @
                   str env (HTTPException 401 ''Token header missing 'kid' field'' [])
               | Some kid \<Rightarrow>
                   if kid = [] then
                     ''Token verification failed: '' @
                     str env (HTTPException 401 ''Token header missing 'kid' field'' [])
                   else
                     (case find_key (jwks_keys jwks) kid of
                        None \<Rightarrow>
                          ''Token verification failed: '' @
                          str env (HTTPException 401 ''Unable to find matching key for token'' [])
                      | Some k \<Rightarrow>
                          if lib_signature_ok t k [ALGORITHM (settings env)] then
                            ''Invalid token: '' @
                            str env (ExpiredSignatureError ''Signature has expired.'')
                          else
                            ''Invalid token: '' @
                            str env (JWTError ''Signature verification failed.''))) []),
            s1)"
  using verify_token_try_expired [OF assms]
  by (simp add: verify_token_def split: option.splits)

theorem verify_token_expired_witness:
  "get_unverified_header env0 = lib_get_unverified_header tokens0 \<and>
   jwt_decode env0 = lib_decode tokens0 1000 \<and>
   get_jwks_keys env0 (state_at 0 []) = (Inr keys0, state_at 0 []) \<and>
   map_of tokens0 ''stale'' =
     Some \<lparr>hdr = [(''alg'', ''RS256''), (''kid'', ''k1'')], claims = claims0, exp = 10,
           signed_with = ''N1''\<rparr> \<and>
   exp \<lparr>hdr = [(''alg'', ''RS256''), (''kid'', ''k1'')], claims = claims0, exp = 10,
        signed_with = ''N1''\<rparr> < 1000 \<and>
   verify_token env0 (state_at 0 []) ''stale'' =
     (Inl (HTTPException 401
             (''Invalid token: '' @ str env0 (ExpiredSignatureError ''Signature has expired.''))
             []),
      state_at 0 [])"
proof -
  let ?t = "\<lparr>hdr = [(''alg'', ''RS256''), (''kid'', ''k1'')], claims = claims0, exp = 10,
             signed_with = ''N1''\<rparr>"
  have a: "get_unverified_header env0 = lib_get_unverified_header tokens0"
    by (simp add: env0_def)
  have b: "jwt_decode env0 = lib_decode tokens0 1000" by (simp add: env0_def)
  have c: "get_jwks_keys env0 (state_at 0 []) = (Inr keys0, state_at 0 [])"
    by (simp add: get_jwks_keys_def cache_valid_def state_at_def env0_def CACHE_DURATION_def
        keys0_def)
  have d: "map_of tokens0 ''stale'' = Some ?t" by (simp add: tokens0_def)
  have e: "exp ?t < 1000" by simp
  have k: "find_key (jwks_keys keys0) ''k1'' =
             Some [(''kid'', ''k1''), (''kty'', ''RSA''), (''n'', ''N1'')]"
    by (simp add: jwks_keys_def keys0_def)
  have g: "lib_signature_ok ?t [(''kid'', ''k1''), (''kty'', ''RSA''), (''n'', ''N1'')]
             [ALGORITHM (settings env0)]"
    by (simp add: lib_signature_ok_def env0_def cfg0_def)
  from verify_token_expired [OF a b c d e] k g a b c d show ?thesis by simp
qed

text \<open>
  Claim C4 as stated fails. Three tokens expired at 10, before the clock's 1000, and
  none fails as expired: \<open>other\<close> names a key the key set does not hold, \<open>forged\<close>
  names the known key but its signature does not verify, \<open>nokid\<close> names no key.
\<close>

theorem verify_token_expired_counterexample:
  "map_option exp (map_of tokens0 ''other'') = Some 10 \<and>
   map_option exp (map_of tokens0 ''forged'') = Some 10 \<and>
   map_option exp (map_of tokens0 ''nokid'') = Some 10 \<and>
   (10::int) < utcnow env0 \<and>
   verify_token env0 (state_at 0 []) ''other'' =
     (Inl (HTTPException 401
             (''Token verification failed: '' @
              str env0 (HTTPException 401 ''Unable to find matching key for token'' [])) []),
      state_at 0 []) \<and>
   verify_token env0 (state_at 0 []) ''forged'' =
     (Inl (HTTPException 401
             (''Invalid token: '' @ str env0 (JWTError ''Signature verification failed.'')) []),
      state_at 0 []) \<and>
   verify_token env0 (state_at 0 []) ''nokid'' =
     (Inl (HTTPException 401
             (''Token verification failed: '' @
              str env0 (HTTPException 401 ''Token header missing 'kid' field'' [])) []),
      state_at 0 [])"
  by (simp add: concrete_defs)

section \<open>The protected routes' dependency\<close>

lemma verify_token_fails:
  assumes "verify_token env s token = (Inl e, s')"
  shows "\<exists>x. e = HTTPException 401 (''Invalid token: '' @ str env x) [] \<or>
             e = HTTPException 401 (''Token verification failed: '' @ str env x) []"
  using assms by (auto simp: verify_token_def split: prod.splits sum.splits if_splits)

lemma verify_token_fails_http:
  "verify_token env s token = (Inl e, s') \<Longrightarrow> isinstance_HTTPException e"
  by (auto dest: verify_token_fails)

text \<open>
  Claim C2, as the code has it. Every failure of \<open>get_current_user\<close> is an
  \<open>HTTPException\<close> with status 401, and its detail is one of five texts, each naming
  the step that failed; for a failure of \<open>verify_token\<close> it carries the text of the
  underlying exception.
\<close>

theorem get_current_user_fails_401:
  assumes "get_current_user env s req = (Inl e, s')"
  shows "e = HTTPException 401 ''Not authenticated. Missing access token cookie.'' bearer \<or>
         (\<exists>x. e = HTTPException 401 (''Invalid token: '' @ str env x) []) \<or>
         (\<exists>x. e = HTTPException 401 (''Token verification failed: '' @ str env x) []) \<or>
         e = HTTPException 401 ''Token payload missing 'sub' claim'' bearer \<or>
         e = HTTPException 401 ''User not found in database'' bearer"
proof (cases "map_of (cookies req) (COOKIE_NAME (settings env))")
  case None
  with assms show ?thesis by (simp add: get_current_user_def)
next
  case (Some token)
  show ?thesis
  proof (cases "token = []")
    case True
    with Some assms show ?thesis by (simp add: get_current_user_def)
  next
    case False
    obtain r s1 where v: "verify_token env s token = (r, s1)"
      by (cases "verify_token env s token")
    show ?thesis
    proof (cases r)
      case (Inl x)
      with v have h: "isinstance_HTTPException x" by (simp add: verify_token_fails_http)
      with Some False v Inl assms have "e = x" by (simp add: get_current_user_def)
      with v Inl verify_token_fails [of env s token e s1] show ?thesis by blast
    next
      case (Inr payload)
      show ?thesis
      proof (cases "map_of payload ''sub''")
        case None
        with Some False v Inr assms show ?thesis by (simp add: get_current_user_def)
      next
        case sub: (Some sub)
        show ?thesis
        proof (cases "sub = []")
          case True
          with Some False v Inr sub assms show ?thesis by (simp add: get_current_user_def)
        next
          case nonempty: False
          with Some False v Inr sub assms show ?thesis
            by (simp add: get_current_user_def Let_def split: option.splits)
        qed
      qed
    qed
  qed
qed

theorem get_current_user_fails_401_witness:
  "get_current_user env0 (state_at 0 []) (req_of ''stale'') =
     (Inl (HTTPException 401 ''Invalid token: Signature has expired.'' []), state_at 0 []) \<and>
   (HTTPException 401 ''Invalid token: Signature has expired.'' [] =
      HTTPException 401 ''Not authenticated. Missing access token cookie.'' bearer \<or>
    (\<exists>x. HTTPException 401 ''Invalid token: Signature has expired.'' [] =
          HTTPException 401 (''Invalid token: '' @ str env0 x) []) \<or>
    (\<exists>x. HTTPException 401 ''Invalid token: Signature has expired.'' [] =
          HTTPException 401 (''Token verification failed: '' @ str env0 x) []) \<or>
    HTTPException 401 ''Invalid token: Signature has expired.'' [] =
      HTTPException 401 ''Token payload missing 'sub' claim'' bearer \<or>
    HTTPException 401 ''Invalid token: Signature has expired.'' [] =
      HTTPException 401 ''User not found in database'' bearer)"
proof -
  have a: "get_current_user env0 (state_at 0 []) (req_of ''stale'') =
     (Inl (HTTPException 401 ''Invalid token: Signature has expired.'' []), state_at 0 [])"
    by (simp add: get_current_user_def req_of_def concrete_defs)
  from get_current_user_fails_401 [OF a] a show ?thesis by simp
qed

text \<open>
  Claim C2 as stated fails: three requests that fail at three different checks get
  three different bodies, each telling which check it was.
\<close>

theorem get_current_user_detail_counterexample:
  "get_current_user env0 (state_at 0 []) (req_of ''stale'') =
     (Inl (HTTPException 401 ''Invalid token: Signature has expired.'' []), state_at 0 []) \<and>
   get_current_user env0 (state_at 0 []) (req_of ''other'') =
     (Inl (HTTPException 401
             ''Token verification failed: 401: Unable to find matching key for token'' []),
      state_at 0 []) \<and>
   get_current_user env0 (state_at 0 []) (req_of ''good'') =
     (Inl (HTTPException 401 ''User not found in database'' bearer),
      (state_at 0 [])\<lparr>effects := [DbQuery ''u-1'']\<rparr>)"
  by (simp add: get_current_user_def req_of_def concrete_defs)

text \<open>
  Claim C9. A protected call without the session cookie fails with the 401
  \<open>Not authenticated\<close> in \<open>get_current_user\<close>, and so in every route that depends on
  it, with the state untouched: no key fetch, no user lookup and no forward appear among
  the effects.
\<close>

theorem no_cookie_unauthenticated:
  assumes "map_of (cookies req) (COOKIE_NAME (settings env)) = None"
  shows "get_current_user env s req =
           (Inl (HTTPException 401 ''Not authenticated. Missing access token cookie.'' bearer), s) \<and>
         create_plan env s req =
           (Inl (HTTPException 401 ''Not authenticated. Missing access token cookie.'' bearer), s) \<and>
         chat env s req =
           (Inl (HTTPException 401 ''Not authenticated. Missing access token cookie.'' bearer), s) \<and>
         query_rag env s req request_data =
           (Inl (HTTPException 401 ''Not authenticated. Missing access token cookie.'' bearer), s)"
  using assms by (simp add: get_current_user_def create_plan_def chat_def query_rag_def)

theorem no_cookie_unauthenticated_witness:
  "map_of (cookies \<lparr>cookies = [], body = Some (JObj [])\<rparr>) (COOKIE_NAME (settings env0)) = None \<and>
   create_plan env0 state0 \<lparr>cookies = [], body = Some (JObj [])\<rparr> =
     (Inl (HTTPException 401 ''Not authenticated. Missing access token cookie.'' bearer), state0) \<and>
   effects state0 = []"
proof -
  have a: "map_of (cookies \<lparr>cookies = [], body = Some (JObj [])\<rparr>) (COOKIE_NAME (settings env0)) = None"
    by simp
  from no_cookie_unauthenticated [OF a, of state0] a show ?thesis by (simp add: state0_def)
qed

section \<open>Forwarding\<close>

lemma update_user_id_only:
  "distinct (map fst b) \<Longrightarrow>
   filter (\<lambda>kv. fst kv = k) (AList.update k v b) = [(k, v)]"
  by (induction b) (auto simp: filter_empty_conv image_iff)

lemma post_downstream_effects:
  "effects (snd (post_downstream env s sd fd u p)) = effects s @ [Forward u p]"
  by (auto simp: post_downstream_def Let_def split: sum.splits exc.splits)

text \<open>
  Claim C10. After authentication as \<open>u\<close>, each JSON route makes exactly one forward,
  and the \<open>user_id\<close> of its payload is \<open>str(u.id)\<close> whatever the client's body
  held under that key; the keys of a dictionary being distinct, no other \<open>user_id\<close>
  entry is in the payload. The body \<open>b\<close> is the request's JSON object, or empty when
  the body cannot be read; \<open>d\<close> is the dictionary \<open>query_rag\<close> receives.
\<close>

theorem forwarded_user_id:
  assumes "get_current_user env s req = (Inr u, s1)"
    and "(body req = None \<and> b = []) \<or> body req = Some (JObj b)"
  shows "(\<exists>kvs.
           effects (snd (create_plan env s req)) =
             effects s1 @ [Forward (GENERATION_SERVICE_URL (settings env) @ ''/create_plan'')
                             (JObj kvs)] \<and>
           map_of kvs ''user_id'' = Some (JStr (uid u)) \<and>
           (distinct (map fst b) \<longrightarrow>
              filter (\<lambda>kv. fst kv = ''user_id'') kvs = [(''user_id'', JStr (uid u))])) \<and>
         (\<exists>kvs.
           effects (snd (chat env s req)) =
             effects s1 @ [Forward (GENERATION_SERVICE_URL (settings env) @ ''/learn/generation'')
                             (JObj kvs)] \<and>
           map_of kvs ''user_id'' = Some (JStr (uid u)) \<and>
           (distinct (map fst b) \<longrightarrow>
              filter (\<lambda>kv. fst kv = ''user_id'') kvs = [(''user_id'', JStr (uid u))])) \<and>
         (\<exists>kvs.
           effects (snd (query_rag env s req d)) =
             effects s1 @ [Forward (RAG_SERVICE_URL (settings env) @ ''/query'') (JObj kvs)] \<and>
           map_of kvs ''user_id'' = Some (JStr (uid u)) \<and>
           (distinct (map fst d) \<longrightarrow>
              filter (\<lambda>kv. fst kv = ''user_id'') kvs = [(''user_id'', JStr (uid u))]))"
proof -
  let ?v = "JStr (uid u)"
  let ?kvs = "AList.update ''user_id'' ?v b"
  let ?kvd = "AList.update ''user_id'' ?v d"
  have inj: "inject_user_id u (case body req of None \<Rightarrow> JObj [] | Some j \<Rightarrow> j) = Inr (JObj ?kvs)"
    using assms(2) by (auto simp: inject_user_id_def)
  have inj2: "inject_user_id u (JObj d) = Inr (JObj ?kvd)"
    by (simp add: inject_user_id_def)
  have 1: "effects (snd (create_plan env s req)) =
             effects s1 @ [Forward (GENERATION_SERVICE_URL (settings env) @ ''/create_plan'')
                             (JObj ?kvs)]"
    using assms(1) inj by (simp add: create_plan_def post_downstream_effects)
  have 2: "effects (snd (chat env s req)) =
             effects s1 @ [Forward (GENERATION_SERVICE_URL (settings env) @ ''/learn/generation'')
                             (JObj ?kvs)]"
    using assms(1) inj by (simp add: chat_def post_downstream_effects)
  have 3: "effects (snd (query_rag env s req d)) =
             effects s1 @ [Forward (RAG_SERVICE_URL (settings env) @ ''/query'') (JObj ?kvd)]"
    using assms(1) inj2 by (simp add: query_rag_def post_downstream_effects)
  have 4: "map_of ?kvs ''user_id'' = Some ?v" "map_of ?kvd ''user_id'' = Some ?v"
    by (simp_all add: update_conv')
  have 5: "distinct (map fst b) \<longrightarrow> filter (\<lambda>kv. fst kv = ''user_id'') ?kvs = [(''user_id'', ?v)]"
    by (simp add: update_user_id_only)
  have 6: "distinct (map fst d) \<longrightarrow> filter (\<lambda>kv. fst kv = ''user_id'') ?kvd = [(''user_id'', ?v)]"
    by (simp add: update_user_id_only)
  from 1 2 3 4 5 6 show ?thesis by blast
qed

lemma gcu_good:
  "get_current_user env0 (state_at 0 [user1]) req_evil =
     (Inr user1, (state_at 0 [user1])\<lparr>effects := [DbQuery ''u-1'']\<rparr>)"
  by (simp add: get_current_user_def req_evil_def user1_def concrete_defs)

theorem forwarded_user_id_witness:
  "get_current_user env0 (state_at 0 [user1]) req_evil =
     (Inr user1, (state_at 0 [user1])\<lparr>effects := [DbQuery ''u-1'']\<rparr>) \<and>
   body req_evil = Some (JObj [(''user_id'', JStr ''evil''), (''q'', JNum 1)]) \<and>
   effects (snd (create_plan env0 (state_at 0 [user1]) req_evil)) =
     [DbQuery ''u-1'',
      Forward ''http://gen/create_plan'' (JObj [(''user_id'', JStr ''id-1''), (''q'', JNum 1)])] \<and>
   (\<exists>kvs. effects (snd (query_rag env0 (state_at 0 [user1]) req_evil
                          [(''user_id'', JStr ''evil''), (''q'', JNum 1)])) =
            [DbQuery ''u-1'', Forward ''http://rag/query'' (JObj kvs)] \<and>
          map_of kvs ''user_id'' = Some (JStr ''id-1''))"
proof -
  have b: "(body req_evil = None \<and> [(''user_id'', JStr ''evil''), (''q'', JNum 1)] = []) \<or>
           body req_evil = Some (JObj [(''user_id'', JStr ''evil''), (''q'', JNum 1)])"
    by (simp add: req_evil_def)
  have bd: "body req_evil = Some (JObj [(''user_id'', JStr ''evil''), (''q'', JNum 1)])"
    by (simp add: req_evil_def)
  have gen: "GENERATION_SERVICE_URL (settings env0) = ''http://gen''"
    by (simp add: env0_def cfg0_def)
  have rag: "RAG_SERVICE_URL (settings env0) = ''http://rag''"
    by (simp add: env0_def cfg0_def)
  have uid1: "uid user1 = ''id-1''" by (simp add: user1_def)
  have c: "effects (snd (create_plan env0 (state_at 0 [user1]) req_evil)) =
     [DbQuery ''u-1'',
      Forward ''http://gen/create_plan'' (JObj [(''user_id'', JStr ''id-1''), (''q'', JNum 1)])]"
    by (simp add: create_plan_def gcu_good bd inject_user_id_def post_downstream_effects
        gen uid1)
  from forwarded_user_id [OF gcu_good b, of "[(''user_id'', JStr ''evil''), (''q'', JNum 1)]"]
  have "\<exists>kvs. effects (snd (query_rag env0 (state_at 0 [user1]) req_evil
                          [(''user_id'', JStr ''evil''), (''q'', JNum 1)])) =
            effects ((state_at 0 [user1])\<lparr>effects := [DbQuery ''u-1'']\<rparr>) @
            [Forward (RAG_SERVICE_URL (settings env0) @ ''/query'') (JObj kvs)] \<and>
          map_of kvs ''user_id'' = Some (JStr (uid user1))"
    by blast
  then have "\<exists>kvs. effects (snd (query_rag env0 (state_at 0 [user1]) req_evil
                          [(''user_id'', JStr ''evil''), (''q'', JNum 1)])) =
            [DbQuery ''u-1'', Forward ''http://rag/query'' (JObj kvs)] \<and>
          map_of kvs ''user_id'' = Some (JStr ''id-1'')"
    by (simp add: rag uid1)
  with gcu_good bd c show ?thesis by simp
qed

section \<open>Just-in-time provisioning\<close>

lemma inserts_append: "inserts (es @ fs) = inserts es @ inserts fs"
  by (induction es rule: inserts.induct) auto

lemma find_append_new:
  "find P xs = None \<Longrightarrow> P u \<Longrightarrow> find P (xs @ [u]) = Some u"
  by (induction xs) (auto split: if_splits)

lemma jit_provision_existing:
  "find (\<lambda>u. cognito_sub u = sub) (users s) = Some u \<Longrightarrow>
   jit_provision env s sub em name = (Inr u, s\<lparr>effects := effects s @ [DbQuery sub]\<rparr>)"
  by (simp add: jit_provision_def)

lemma jit_provision_new:
  assumes "find (\<lambda>u. cognito_sub u = sub) (users s) = None"
    and "\<not> violates_unique (users s @ concurrent_rows env) (new_user env sub em name)"
  shows "jit_provision env s sub em name =
           (Inr (new_user env sub em name),
            s\<lparr>users := users s @ concurrent_rows env @ [new_user env sub em name],
              effects := effects s @ [DbQuery sub, DbInsert (new_user env sub em name)]\<rparr>)"
  using assms by (simp add: jit_provision_def db_insert_def new_user_def Let_def)

lemma jit_provision_violation:
  assumes "find (\<lambda>u. cognito_sub u = sub) (users s) = None"
    and "violates_unique (users s @ concurrent_rows env) (new_user env sub em name)"
  shows "jit_provision env s sub em name =
           (Inl (IntegrityError ''duplicate key value violates unique constraint''),
            s\<lparr>users := users s @ concurrent_rows env,
              effects := effects s @ [DbQuery sub, DbInsert (new_user env sub em name)]\<rparr>)"
  using assms by (simp add: jit_provision_def db_insert_def new_user_def Let_def)

text \<open>
  Claim C5, as the code has it. When the subject has no row at the lookup and the
  commit of the new row breaks a uniqueness constraint, \<open>callback\<close> does not read the
  table again: the \<open>IntegrityError\<close> leaves the function, no response and no cookie are
  produced, and the table holds what it held before this request's insert.
\<close>

theorem callback_integrity_error_surfaces:
  assumes "callback_tokens env s code = (Inr (access_token, id_token), s1)"
    and "callback_user_info env s1 id_token = (Inr (sub, em, name), s2)"
    and "find (\<lambda>u. cognito_sub u = sub) (users s2) = None"
    and "violates_unique (users s2 @ concurrent_rows env) (new_user env sub em name)"
  shows "fst (callback env s code) =
           Inl (IntegrityError ''duplicate key value violates unique constraint'') \<and>
         users (snd (callback env s code)) = users s2 @ concurrent_rows env"
  using assms(1,2) jit_provision_violation [OF assms(3,4)]
  by (simp add: callback_def)

lemma callback_tokens_race:
  "callback_tokens env_race state0 ''abc123'' =
     (Inr (''good'', ''good''),
      state0\<lparr>effects := [TokenPost ''https://auth.example/oauth2/token''
         [(''grant_type'', ''authorization_code''),
          (''client_id'', ''client''), (''client_secret'', ''secret''),
          (''code'', ''abc123''),
          (''redirect_uri'', ''https://gw/callback'')]]\<rparr>)"
  by (simp add: callback_tokens_def env_race_def env0_def cfg0_def state0_def)

lemma callback_user_info_race:
  "fst (callback_user_info env_race (snd (callback_tokens env_race state0 ''abc123'')) ''good'') =
     Inr (''u-1'', ''a@x.com'', ''a'') \<and>
   users (snd (callback_user_info env_race (snd (callback_tokens env_race state0 ''abc123''))
                 ''good'')) = []"
  by (simp add: callback_tokens_def callback_user_info_def callback_user_info_try_def
      env_race_def concrete_defs)

theorem callback_integrity_error_surfaces_witness:
  "callback_tokens env_race state0 ''abc123'' =
     (Inr (''good'', ''good''), snd (callback_tokens env_race state0 ''abc123'')) \<and>
   callback_user_info env_race (snd (callback_tokens env_race state0 ''abc123'')) ''good'' =
     (Inr (''u-1'', ''a@x.com'', ''a''),
      snd (callback_user_info env_race (snd (callback_tokens env_race state0 ''abc123''))
             ''good'')) \<and>
   find (\<lambda>u. cognito_sub u = ''u-1'')
     (users (snd (callback_user_info env_race (snd (callback_tokens env_race state0 ''abc123''))
                    ''good''))) = None \<and>
   violates_unique
     (users (snd (callback_user_info env_race (snd (callback_tokens env_race state0 ''abc123''))
                    ''good'')) @ concurrent_rows env_race)
     (new_user env_race ''u-1'' ''a@x.com'' ''a'') \<and>
   fst (callback env_race state0 ''abc123'') =
     Inl (IntegrityError ''duplicate key value violates unique constraint'')"
proof -
  let ?s1 = "snd (callback_tokens env_race state0 ''abc123'')"
  let ?s2 = "snd (callback_user_info env_race ?s1 ''good'')"
  have a: "callback_tokens env_race state0 ''abc123'' = (Inr (''good'', ''good''), ?s1)"
    by (simp add: callback_tokens_race)
  have b: "callback_user_info env_race ?s1 ''good'' = (Inr (''u-1'', ''a@x.com'', ''a''), ?s2)"
    using callback_user_info_race by (simp add: prod_eq_iff)
  have c: "find (\<lambda>u. cognito_sub u = ''u-1'') (users ?s2) = None"
    using callback_user_info_race by simp
  have d: "violates_unique (users ?s2 @ concurrent_rows env_race)
             (new_user env_race ''u-1'' ''a@x.com'' ''a'')"
    using callback_user_info_race
    by (simp add: violates_unique_def new_user_def env_race_def env0_def user1_def)
  from callback_integrity_error_surfaces [OF a b c d] a b c d show ?thesis by simp
qed

text \<open>
  Claim C5 as stated fails: the table is empty at the lookup, a concurrent first login
  of \<open>u-1\<close> commits its row, and this request's callback ends in the error while the
  row of \<open>u-1\<close> is in the table.
\<close>

theorem callback_race_counterexample:
  "fst (callback env_race state0 ''abc123'') =
     Inl (IntegrityError ''duplicate key value violates unique constraint'') \<and>
   users (snd (callback env_race state0 ''abc123'')) = [user1\<lparr>uid := ''id-9''\<rparr>] \<and>
   cognito_sub (user1\<lparr>uid := ''id-9''\<rparr>) = ''u-1''"
  by (simp add: callback_def callback_tokens_def callback_user_info_def
      callback_user_info_try_def jit_provision_def db_insert_def violates_unique_def
      new_user_def env_race_def user1_def concrete_defs)

lemma no_violation:
  assumes "find (\<lambda>u. cognito_sub u = sub) tbl = None"
    and "\<not> list_ex (\<lambda>r. uid r = uuid4 env \<or> email r = em) tbl"
  shows "\<not> violates_unique tbl (new_user env sub em name)"
  using assms by (auto simp: violates_unique_def new_user_def list_ex_iff find_None_iff)

text \<open>
  Claim C6, as the code has it. Requests run in sequence; no user has the subject, none
  has the email of the claims, and the generated id is unused. Then the first resolution
  inserts one row and returns it, and a second resolution of the subject (by any later
  request, whatever email and name its claims carry) returns the same row, changes no
  row, and inserts nothing: one insert in all.
\<close>

theorem jit_provision_twice:
  assumes "concurrent_rows env = []"
    and "find (\<lambda>u. cognito_sub u = sub) (users s) = None"
    and "\<not> list_ex (\<lambda>r. uid r = uuid4 env \<or> email r = em) (users s)"
  shows "\<exists>u s1 s2.
           jit_provision env s sub em name = (Inr u, s1) \<and>
           jit_provision env' s1 sub em' name' = (Inr u, s2) \<and>
           uid u = uuid4 env \<and> cognito_sub u = sub \<and>
           users s1 = users s @ [u] \<and> users s2 = users s1 \<and>
           inserts (effects s2) = inserts (effects s) @ [u]"
proof -
  let ?u = "new_user env sub em name"
  let ?s1 = "s\<lparr>users := users s @ concurrent_rows env @ [?u],
               effects := effects s @ [DbQuery sub, DbInsert ?u]\<rparr>"
  let ?s2 = "?s1\<lparr>effects := effects ?s1 @ [DbQuery sub]\<rparr>"
  have nv: "\<not> violates_unique (users s @ concurrent_rows env) ?u"
    using no_violation [OF assms(2,3)] assms(1) by simp
  have first: "jit_provision env s sub em name = (Inr ?u, ?s1)"
    by (rule jit_provision_new [OF assms(2) nv])
  have "find (\<lambda>u. cognito_sub u = sub) (users ?s1) = Some ?u"
    using assms(1,2) by (simp add: find_append_new new_user_def)
  then have second: "jit_provision env' ?s1 sub em' name' = (Inr ?u, ?s2)"
    by (rule jit_provision_existing)
  have "uid ?u = uuid4 env" "cognito_sub ?u = sub" by (simp_all add: new_user_def)
  moreover have "users ?s1 = users s @ [?u]" using assms(1) by simp
  moreover have "users ?s2 = users ?s1" by simp
  moreover have "inserts (effects ?s2) = inserts (effects s) @ [?u]"
    by (simp add: inserts_append)
  ultimately show ?thesis using first second by blast
qed

theorem jit_provision_twice_witness:
  "concurrent_rows env0 = [] \<and>
   find (\<lambda>u. cognito_sub u = ''u-1'') (users state0) = None \<and>
   \<not> list_ex (\<lambda>r. uid r = uuid4 env0 \<or> email r = ''a@x.com'') (users state0) \<and>
   (\<exists>u s1 s2.
      jit_provision env0 state0 ''u-1'' ''a@x.com'' ''a'' = (Inr u, s1) \<and>
      jit_provision env_race s1 ''u-1'' ''b@y.org'' ''b'' = (Inr u, s2) \<and>
      uid u = uuid4 env0 \<and> cognito_sub u = ''u-1'' \<and>
      users s1 = users state0 @ [u] \<and> users s2 = users s1 \<and>
      inserts (effects s2) = inserts (effects state0) @ [u])"
proof -
  have a: "concurrent_rows env0 = []" by (simp add: env0_def)
  have b: "find (\<lambda>u. cognito_sub u = ''u-1'') (users state0) = None" by (simp add: state0_def)
  have c: "\<not> list_ex (\<lambda>r. uid r = uuid4 env0 \<or> email r = ''a@x.com'') (users state0)"
    by (simp add: state0_def)
  from jit_provision_twice [OF a b c, of "''a''" env_race "''b@y.org''" "''b''"] a b c
  show ?thesis by simp
qed

text \<open>
  Claim C6 as stated fails: no user has the subject \<open>u-1\<close>, but \<open>user0\<close> holds the email
  \<open>a@x.com\<close>; the first resolution of \<open>u-1\<close> with that email raises and returns no
  user.
\<close>

theorem jit_provision_email_taken_counterexample:
  "map cognito_sub (users (state_at 0 [user0])) = [''u-0''] \<and>
   fst (jit_provision env0 (state_at 0 [user0]) ''u-1'' ''a@x.com'' ''a'') =
     Inl (IntegrityError ''duplicate key value violates unique constraint'') \<and>
   users (snd (jit_provision env0 (state_at 0 [user0]) ''u-1'' ''a@x.com'' ''a'')) = [user0]"
  by (simp add: jit_provision_def db_insert_def violates_unique_def new_user_def state_at_def
      user0_def env0_def)

end
